theory Spec2Isabelle
  imports Main
begin

section \<open>Client-side router for clean URLs (assets/js/router.js)\<close>

text \<open>
  A shallow embedding of the \<^verbatim>\<open>Router\<close> class of \<^verbatim>\<open>assets/js/router.js\<close>.
  JavaScript strings are modelled as \<^typ>\<open>string\<close>; every string operation the router
  uses (\<^verbatim>\<open>startsWith\<close>, \<^verbatim>\<open>includes\<close>, \<^verbatim>\<open>slice(1)\<close>, \<^verbatim>\<open>split\<close>, \<^verbatim>\<open>replace\<close>) works unit by
  unit, so the unit type does not matter to the results below.
\<close>

subsection \<open>String primitives of the language\<close>

definition startsWith :: "string \<Rightarrow> string \<Rightarrow> bool" where
  "startsWith s p = (take (length p) s = p)"

text \<open>\<^verbatim>\<open>s.includes(sub)\<close>: \<open>sub\<close> occurs in \<open>s\<close> at some position.\<close>

fun str_includes :: "string \<Rightarrow> string \<Rightarrow> bool" where
  "str_includes [] sub = (sub = [])"
| "str_includes (c # cs) sub = (startsWith (c # cs) sub \<or> str_includes cs sub)"

text \<open>
  \<^verbatim>\<open>s.split(/[...]/)\<close> for a regular expression that is one character class: the pieces
  between the matching characters. The result is never empty.
\<close>

fun split_class :: "(char \<Rightarrow> bool) \<Rightarrow> string \<Rightarrow> string list" where
  "split_class P [] = [[]]"
| "split_class P (c # cs) =
     (if P c then [] # split_class P cs
      else (case split_class P cs of
              [] \<Rightarrow> [[c]]
            | piece # pieces \<Rightarrow> (c # piece) # pieces))"

text \<open>
  \<^verbatim>\<open>pieces[0] + suffix\<close>: index 0 of an empty array is \<^verbatim>\<open>undefined\<close>, which string
  concatenation prints as the word.
\<close>

definition first_plus :: "string list \<Rightarrow> string \<Rightarrow> string" where
  "first_plus pieces suffix =
     (case pieces of [] \<Rightarrow> ''undefined'' @ suffix | piece # _ \<Rightarrow> piece @ suffix)"

text \<open>
  \<^verbatim>\<open>s.replace(pat, rep)\<close> with a string pattern: only the first occurrence of \<open>pat\<close> is
  replaced. (The router's replacement is the empty string, so the \<^verbatim>\<open>$\<close> patterns of the
  replacement text play no part.)
\<close>

fun js_replace :: "string \<Rightarrow> string \<Rightarrow> string \<Rightarrow> string" where
  "js_replace [] pat rep = (if pat = [] then rep else [])"
| "js_replace (c # cs) pat rep =
     (if startsWith (c # cs) pat then rep @ drop (length pat) (c # cs)
      else c # js_replace cs pat rep)"

subsection \<open>Path to file name\<close>

definition isQueryOrFragment :: "char \<Rightarrow> bool" where
  "isQueryOrFragment c = (c = CHR ''?'' \<or> c = CHR ''#'')"

definition pathToHtmlFile :: "string \<Rightarrow> string" where
  "pathToHtmlFile path =
     (let cleanPath = (if startsWith path ''/'' then drop 1 path else path)
      in if cleanPath = '''' \<or> cleanPath = ''/'' then ''index.html''
         else first_plus (split_class isQueryOrFragment cleanPath) ''.html'')"

text \<open>
  The mapping as the specification words it: strip a leading slash; \<^verbatim>\<open>index.html\<close> when the
  remainder is empty; otherwise drop the query/fragment suffix and append \<^verbatim>\<open>.html\<close>.
\<close>

definition spec_pathToHtmlFile :: "string \<Rightarrow> string" where
  "spec_pathToHtmlFile path =
     (let rest = (if startsWith path ''/'' then drop 1 path else path)
      in if rest = '''' then ''index.html''
         else takeWhile (\<lambda>c. \<not> isQueryOrFragment c) rest @ ''.html'')"

subsection \<open>The browser, as the router sees it\<close>

text \<open>
  An element, with the four properties the router reads or writes. A document (the live
  one, or one made by \<^verbatim>\<open>DOMParser\<close>) is known to the router only through
  \<^verbatim>\<open>querySelector\<close>, so it is a map from the selector to the element found. A property
  holds the string last assigned to it, and an assignment to one property leaves the
  others as they were: the router never reads back a property of the live document.
\<close>

record element =
  innerHTML :: string
  textContent :: string
  href :: string
  content :: string

type_synonym dom = "string \<rightharpoonup> element"

text \<open>The state object of a history entry: \<^verbatim>\<open>null\<close>, or an object that may have a \<^verbatim>\<open>path\<close>.\<close>

datatype hist_state = NullState | StateObj "string option"

record hist_entry =
  entryState :: hist_state
  entryUrl :: string

datatype fetch_result = NetworkError | Response bool string

datatype exn = FetchRejected | LoadFailed string | PushStateRefused | ScriptError

text \<open>
  What the page and the browser give the router and the router does not change: the
  origin of the page (\<^verbatim>\<open>window.location.origin\<close>, also \<^verbatim>\<open>ROUTER_CONFIG.baseUrl\<close>), the
  network (a response has its \<^verbatim>\<open>ok\<close> flag and its text), the HTML parser followed by
  \<^verbatim>\<open>querySelector\<close>, the URL parser (\<^verbatim>\<open>new URL(url).pathname\<close>, \<open>None\<close> when the constructor
  throws), whether \<^verbatim>\<open>history.pushState\<close> accepts a URL, and whether the third-party
  plugins called by \<^verbatim>\<open>reinitializeScripts\<close> throw.
\<close>

record env =
  origin :: string
  fetch :: "string \<Rightarrow> fetch_result"
  parseFromString :: "string \<Rightarrow> dom"
  urlPathname :: "string \<Rightarrow> string option"
  pushStateAccepts :: "string \<Rightarrow> bool"
  scriptsThrow :: bool

text \<open>
  The router's two fields and the part of the browser it changes. \<open>fetchLog\<close>,
  \<open>consoleErrors\<close> and \<open>scrolls\<close> record the calls of \<^verbatim>\<open>fetch\<close>, \<^verbatim>\<open>console.error\<close> and
  \<^verbatim>\<open>window.scrollTo\<close>; \<open>history\<close> holds the pushed entries, newest first;
  \<open>locationHref\<close> is the last value assigned to \<^verbatim>\<open>window.location.href\<close>.
\<close>

record world =
  currentPath :: string
  isInitialized :: bool
  locationPathname :: string
  docTitle :: string
  bodyClassList :: "string list"
  document :: dom
  history :: "hist_entry list"
  locationHref :: "string option"
  fetchLog :: "string list"
  consoleErrors :: "exn list"
  scrolls :: "(nat \<times> nat) list"

subsection \<open>Configuration\<close>

definition contentSelector :: string where
  "contentSelector = ''#page-wrapper''"

definition loadingClass :: string where
  "loadingClass = ''is-loading''"

definition titleSelector :: string where
  "titleSelector = ''title''"

definition canonicalSelector :: string where
  \<open>canonicalSelector = ''link[rel="canonical"]''\<close>

definition ogUrlSelector :: string where
  \<open>ogUrlSelector = ''meta[property="og:url"]''\<close>

subsection \<open>Class lists\<close>

definition classList_add :: "string \<Rightarrow> string list \<Rightarrow> string list" where
  "classList_add c cs = (if c \<in> set cs then cs else cs @ [c])"

definition classList_remove :: "string \<Rightarrow> string list \<Rightarrow> string list" where
  "classList_remove c cs = removeAll c cs"

subsection \<open>Extraction from fetched HTML\<close>

definition extractContent :: "env \<Rightarrow> string \<Rightarrow> string" where
  "extractContent e html =
     (case parseFromString e html contentSelector of
        None \<Rightarrow> html
      | Some el \<Rightarrow> innerHTML el)"

definition extractTitle :: "env \<Rightarrow> string \<Rightarrow> string option" where
  "extractTitle e html =
     (case parseFromString e html titleSelector of
        None \<Rightarrow> None
      | Some el \<Rightarrow> Some (textContent el))"

definition updateMetaTags :: "env \<Rightarrow> string \<Rightarrow> world \<Rightarrow> world" where
  "updateMetaTags e html w =
     (let doc = parseFromString e html;
          w1 = (case doc canonicalSelector of
                  None \<Rightarrow> w
                | Some canonical \<Rightarrow>
                    (case document w canonicalSelector of
                       None \<Rightarrow> w
                     | Some currentCanonical \<Rightarrow>
                         w\<lparr>document := (document w)(canonicalSelector \<mapsto>
                              currentCanonical\<lparr>href := js_replace (href canonical) ''.html'' ''''\<rparr>)\<rparr>))
      in (case doc ogUrlSelector of
            None \<Rightarrow> w1
          | Some ogUrl \<Rightarrow>
              (case document w1 ogUrlSelector of
                 None \<Rightarrow> w1
               | Some currentOgUrl \<Rightarrow>
                   w1\<lparr>document := (document w1)(ogUrlSelector \<mapsto>
                        currentOgUrl\<lparr>content := js_replace (content ogUrl) ''.html'' ''''\<rparr>)\<rparr>)))"

subsection \<open>The content loader\<close>

text \<open>
  The \<^verbatim>\<open>try\<close> block of \<^verbatim>\<open>loadContent\<close>: the exception thrown, if any, and the state
  reached when it was thrown (what was written before the throw stays written).
\<close>

definition tryLoad :: "env \<Rightarrow> string \<Rightarrow> string \<Rightarrow> bool \<Rightarrow> world \<Rightarrow> exn option \<times> world" where
  "tryLoad e htmlFile path updateHistory w =
     (let w1 = w\<lparr>bodyClassList := classList_add loadingClass (bodyClassList w),
                 fetchLog := fetchLog w @ [htmlFile]\<rparr>
      in case fetch e htmlFile of
           NetworkError \<Rightarrow> (Some FetchRejected, w1)
         | Response ok html \<Rightarrow>
             if \<not> ok then (Some (LoadFailed htmlFile), w1)
             else
               let newContent = extractContent e html;
                   w2 = (case document w1 contentSelector of
                           None \<Rightarrow> w1
                         | Some contentContainer \<Rightarrow>
                             w1\<lparr>document := (document w1)(contentSelector \<mapsto>
                                  contentContainer\<lparr>innerHTML := newContent\<rparr>)\<rparr>);
                   w3 = w2\<lparr>scrolls := scrolls w2 @ [(0, 0)]\<rparr>;
                   w4 = (case extractTitle e html of
                           None \<Rightarrow> w3
                         | Some title \<Rightarrow> if title = '''' then w3 else w3\<lparr>docTitle := title\<rparr>);
                   w5 = updateMetaTags e html w4
               in if updateHistory \<and> \<not> pushStateAccepts e (origin e @ path)
                  then (Some PushStateRefused, w5)
                  else
                    let w6 = (if updateHistory
                              then w5\<lparr>history := \<lparr>entryState = StateObj (Some path),
                                                   entryUrl = origin e @ path\<rparr> # history w5\<rparr>
                              else w5)
                    in if scriptsThrow e then (Some ScriptError, w6) else (None, w6))"

definition loadContent :: "env \<Rightarrow> string \<Rightarrow> bool \<Rightarrow> world \<Rightarrow> world" where
  "loadContent e path updateHistory w =
     (let htmlFile = pathToHtmlFile path;
          (thrown, w1) = tryLoad e htmlFile path updateHistory w;
          w2 = (case thrown of
                  None \<Rightarrow> w1
                | Some error \<Rightarrow> w1\<lparr>consoleErrors := consoleErrors w1 @ [error],
                                     locationHref := Some htmlFile\<rparr>)
      in w2\<lparr>bodyClassList := classList_remove loadingClass (bodyClassList w2)\<rparr>)"

subsection \<open>Navigation, links, history\<close>

definition navigate :: "env \<Rightarrow> string \<Rightarrow> world \<Rightarrow> world" where
  "navigate e path w =
     (if path = currentPath w then w
      else loadContent e path True (w\<lparr>currentPath := path\<rparr>))"

text \<open>
  An anchor: its \<^verbatim>\<open>href\<close> and \<^verbatim>\<open>target\<close> attributes (\<^verbatim>\<open>getAttribute\<close> gives \<^verbatim>\<open>null\<close> for a
  missing one) and its \<^verbatim>\<open>href\<close> property, the resolved URL.
\<close>

record anchor =
  hrefAttr :: "string option"
  targetAttr :: "string option"
  hrefProp :: string

definition isInternalLink :: "env \<Rightarrow> anchor \<Rightarrow> bool" where
  "isInternalLink e link =
     (case hrefAttr link of
        None \<Rightarrow> False
      | Some h \<Rightarrow>
          if h = '''' then False
          else if startsWith h ''http'' \<and> \<not> str_includes h (origin e) then False
          else if startsWith h ''#'' then False
          else if startsWith h ''mailto:'' \<or> startsWith h ''tel:'' then False
          else if targetAttr link = Some ''_blank'' then False
          else True)"

definition getPathFromUrl :: "env \<Rightarrow> string \<Rightarrow> string" where
  "getPathFromUrl e url =
     (case urlPathname e url of
        Some pathname \<Rightarrow> pathname
      | None \<Rightarrow> url)"

definition getCurrentPath :: "world \<Rightarrow> string" where
  "getCurrentPath w = locationPathname w"

text \<open>
  The click listener: \<open>closest\<close> is the anchor that \<^verbatim>\<open>e.target.closest('a')\<close> finds, if
  any. The result says whether \<^verbatim>\<open>preventDefault\<close> was called.
\<close>

definition onClick :: "env \<Rightarrow> anchor option \<Rightarrow> world \<Rightarrow> bool \<times> world" where
  "onClick e closest w =
     (case closest of
        None \<Rightarrow> (False, w)
      | Some link \<Rightarrow>
          if isInternalLink e link
          then (True, navigate e (getPathFromUrl e (hrefProp link)) w)
          else (False, w))"

text \<open>The \<^verbatim>\<open>popstate\<close> listener, given \<^verbatim>\<open>e.state\<close>.\<close>

definition onPopState :: "env \<Rightarrow> hist_state \<Rightarrow> world \<Rightarrow> world" where
  "onPopState e st w =
     (case st of
        NullState \<Rightarrow> w
      | StateObj None \<Rightarrow> w
      | StateObj (Some path) \<Rightarrow> if path = '''' then w else loadContent e path False w)"

subsection \<open>Initial load\<close>

text \<open>
  \<^verbatim>\<open>titleMap[path] || 'GIFT Canada'\<close>. The table is an object literal, so a lookup also
  finds the properties every object inherits; they are functions or objects, never
  strings, and all count as true.
\<close>

datatype js_value = Str string | NotAString

definition titleMap :: "string \<rightharpoonup> string" where
  "titleMap =
     [''/'' \<mapsto> ''GIFT Canada - Registered Canadian Charity | Toronto Non-Profit Organization'',
      ''/donate'' \<mapsto> ''Donate to GIFT Canada - Support Humanitarian Aid & Medical Missions'',
      ''/mission'' \<mapsto> ''GIFT Canada - GIFT Vision & Mission'',
      ''/get-involved'' \<mapsto> ''GIFT Canada - Get Involved'']"

definition inheritedProperties :: "string list" where
  "inheritedProperties =
     [''constructor'', ''hasOwnProperty'', ''isPrototypeOf'', ''propertyIsEnumerable'',
      ''toLocaleString'', ''toString'', ''valueOf'', ''__proto__'',
      ''__defineGetter__'', ''__defineSetter__'', ''__lookupGetter__'', ''__lookupSetter__'']"

definition getExpectedTitle :: "string \<Rightarrow> js_value" where
  "getExpectedTitle path =
     (case titleMap path of
        Some title \<Rightarrow> Str title
      | None \<Rightarrow> if path \<in> set inheritedProperties then NotAString else Str ''GIFT Canada'')"

definition handleInitialLoad :: "env \<Rightarrow> world \<Rightarrow> world" where
  "handleInitialLoad e w =
     (let path = getCurrentPath w
      in if path \<noteq> ''/'' \<and> \<not> str_includes path ''.html'' \<and> \<not> str_includes path ''#''
         then (if Str (docTitle w) \<noteq> getExpectedTitle path
               then loadContent e path False w
               else w)
         else w)"

text \<open>The constructor followed by \<^verbatim>\<open>init\<close>, on the state the page starts in.\<close>

definition init :: "env \<Rightarrow> world \<Rightarrow> world" where
  "init e w =
     (if isInitialized w then w
      else (handleInitialLoad e w)\<lparr>isInitialized := True\<rparr>)"

definition newRouter :: "env \<Rightarrow> world \<Rightarrow> world" where
  "newRouter e w = init e (w\<lparr>currentPath := getCurrentPath w, isInitialized := False\<rparr>)"

subsection \<open>A concrete page and browser\<close>

text \<open>
  A stand-in for the browser's URL parser on \<^verbatim>\<open>http\<close> and \<^verbatim>\<open>https\<close> URLs, enough to run the
  router on concrete inputs: the origin is the scheme and the authority, the path name
  runs from the first slash after the authority to the query or fragment (\<^verbatim>\<open>/\<close> when
  there is none). Any other string is taken as not parseable without a base.
\<close>

definition isPathEnd :: "char \<Rightarrow> bool" where
  "isPathEnd c = (c = CHR ''/'' \<or> c = CHR ''?'' \<or> c = CHR ''#'')"

definition afterScheme :: "string \<Rightarrow> (string \<times> string) option" where
  "afterScheme url =
     (if startsWith url ''https://'' then Some (''https://'', drop 8 url)
      else if startsWith url ''http://'' then Some (''http://'', drop 7 url)
      else None)"

definition httpUrlOrigin :: "string \<Rightarrow> string option" where
  "httpUrlOrigin url =
     (case afterScheme url of
        None \<Rightarrow> None
      | Some (scheme, rest) \<Rightarrow> Some (scheme @ takeWhile (\<lambda>c. \<not> isPathEnd c) rest))"

definition httpUrlPathname :: "string \<Rightarrow> string option" where
  "httpUrlPathname url =
     (case afterScheme url of
        None \<Rightarrow> None
      | Some (scheme, rest) \<Rightarrow>
          (let p = takeWhile (\<lambda>c. \<not> isQueryOrFragment c) (dropWhile (\<lambda>c. \<not> isPathEnd c) rest)
           in Some (if p = '''' then ''/'' else p)))"

definition blankElement :: element where
  "blankElement = \<lparr>innerHTML = '''', textContent = '''', href = '''', content = ''''\<rparr>"

definition donateHtml :: string where
  \<open>donateHtml = ''<html><head><title>Donate</title><link rel="canonical" href="https://x/donate.html"><meta property="og:url" content="https://x/donate.html"></head><body><div id="page-wrapper">Hello</div></body></html>''\<close>

definition donateDom :: dom where
  "donateDom =
     [contentSelector \<mapsto> blankElement\<lparr>innerHTML := ''Hello'', textContent := ''Hello''\<rparr>,
      titleSelector \<mapsto> blankElement\<lparr>innerHTML := ''Donate'', textContent := ''Donate''\<rparr>,
      canonicalSelector \<mapsto> blankElement\<lparr>href := ''https://x/donate.html''\<rparr>,
      ogUrlSelector \<mapsto> blankElement\<lparr>content := ''https://x/donate.html''\<rparr>]"

definition fragmentHtml :: string where
  "fragmentHtml = ''<p>Welcome</p>''"

text \<open>
  A site that serves \<^verbatim>\<open>donate.html\<close> (a full page) and \<^verbatim>\<open>index.html\<close> (markup without the
  content container), and answers 404 to anything else.
\<close>

definition siteFetch :: "string \<Rightarrow> fetch_result" where
  "siteFetch file =
     (if file = ''donate.html'' then Response True donateHtml
      else if file = ''index.html'' then Response True fragmentHtml
      else Response False ''Not Found'')"

definition siteParse :: "string \<Rightarrow> dom" where
  "siteParse html = (if html = donateHtml then donateDom else Map.empty)"

definition siteEnv :: env where
  "siteEnv =
     \<lparr>origin = ''https://gift.example'',
      fetch = siteFetch,
      parseFromString = siteParse,
      urlPathname = httpUrlPathname,
      pushStateAccepts = (\<lambda>url. httpUrlOrigin url = Some ''https://gift.example''),
      scriptsThrow = False\<rparr>"

text \<open>The home page as served, with the router constructed on it.\<close>

definition homeDom :: dom where
  "homeDom =
     [contentSelector \<mapsto> blankElement\<lparr>innerHTML := ''<p>Welcome</p>''\<rparr>,
      canonicalSelector \<mapsto> blankElement\<lparr>href := ''https://x/''\<rparr>,
      ogUrlSelector \<mapsto> blankElement\<lparr>content := ''https://x/''\<rparr>]"

definition homeWorld :: world where
  "homeWorld =
     \<lparr>currentPath = ''/'',
      isInitialized = True,
      locationPathname = ''/'',
      docTitle = ''GIFT Canada - Registered Canadian Charity | Toronto Non-Profit Organization'',
      bodyClassList = [''homepage''],
      document = homeDom,
      history = [],
      locationHref = None,
      fetchLog = [],
      consoleErrors = [],
      scrolls = []\<rparr>"

text \<open>
  A share link on a page of that site: an absolute URL of another origin that carries the
  page's own address in its query. No \<^verbatim>\<open>target\<close> attribute.
\<close>

definition shareLink :: anchor where
  "shareLink =
     \<lparr>hrefAttr = Some ''https://www.facebook.com/sharer/sharer.php?u=https://gift.example/donate'',
      targetAttr = None,
      hrefProp = ''https://www.facebook.com/sharer/sharer.php?u=https://gift.example/donate''\<rparr>"

text \<open>A visit to the clean URL \<^verbatim>\<open>/about\<close>, for which the server sent its error page.\<close>

definition aboutWorld :: world where
  "aboutWorld = homeWorld\<lparr>currentPath := ''/about'', locationPathname := ''/about'',
                           docTitle := ''Page not found''\<rparr>"

text \<open>
  A page of a site whose host name contains \<^verbatim>\<open>.html\<close>: its canonical link and its
  Open-Graph URL, as the parser gives them for any fetched HTML.
\<close>

definition mirrorDom :: dom where
  "mirrorDom =
     [canonicalSelector \<mapsto> blankElement\<lparr>href := ''https://www.html5.example/donate.html''\<rparr>,
      ogUrlSelector \<mapsto> blankElement\<lparr>content := ''https://www.html5.example/donate.html''\<rparr>]"

definition mirrorEnv :: env where
  "mirrorEnv = siteEnv\<lparr>origin := ''https://www.html5.example'',
                        parseFromString := (\<lambda>html. mirrorDom)\<rparr>"

section \<open>Properties\<close>

subsection \<open>String primitives\<close>

lemma split_class_nonempty: "split_class P s \<noteq> []"
  by (induction s) (auto split: list.splits)

lemma split_class_first:
  "first_plus (split_class P s) suffix = takeWhile (\<lambda>c. \<not> P c) s @ suffix"
proof (induction s)
  case Nil
  show ?case by (simp add: first_plus_def)
next
  case (Cons c cs)
  obtain piece pieces where sp: "split_class P cs = piece # pieces"
    using split_class_nonempty [of P cs] by (cases "split_class P cs") auto
  with Cons show ?case by (simp add: first_plus_def)
qed

lemma startsWith_iff: "startsWith s p \<longleftrightarrow> (\<exists>post. s = p @ post)"
proof
  assume "startsWith s p"
  then have "s = p @ drop (length p) s"
    unfolding startsWith_def by (metis append_take_drop_id)
  then show "\<exists>post. s = p @ post" ..
next
  assume "\<exists>post. s = p @ post"
  then show "startsWith s p" by (auto simp: startsWith_def)
qed

lemma str_includes_iff: "str_includes s sub \<longleftrightarrow> (\<exists>pre post. s = pre @ sub @ post)"
proof (induction s)
  case Nil
  show ?case by auto
next
  case (Cons c cs)
  show ?case
  proof
    assume "str_includes (c # cs) sub"
    then consider "startsWith (c # cs) sub" | "str_includes cs sub" by auto
    then show "\<exists>pre post. c # cs = pre @ sub @ post"
    proof cases
      case 1
      then obtain post where "c # cs = sub @ post" by (auto simp: startsWith_iff)
      then have "c # cs = [] @ sub @ post" by simp
      then show ?thesis by blast
    next
      case 2
      then obtain pre post where "cs = pre @ sub @ post" using Cons.IH by auto
      then have "c # cs = (c # pre) @ sub @ post" by simp
      then show ?thesis by blast
    qed
  next
    assume "\<exists>pre post. c # cs = pre @ sub @ post"
    then obtain pre post where eq: "c # cs = pre @ sub @ post" by auto
    show "str_includes (c # cs) sub"
    proof (cases pre)
      case Nil
      with eq have "startsWith (c # cs) sub" by (auto simp: startsWith_iff)
      then show ?thesis by simp
    next
      case (Cons d pre')
      with eq have "cs = pre' @ sub @ post" by simp
      then have "str_includes cs sub" using Cons.IH by blast
      then show ?thesis by simp
    qed
  qed
qed

lemma js_replace_absent: "\<not> str_includes s pat \<Longrightarrow> js_replace s pat rep = s"
  by (induction s) auto

lemma js_replace_here: "js_replace (pat @ post) pat rep = rep @ post"
proof (cases "pat @ post")
  case Nil
  then show ?thesis by simp
next
  case (Cons c cs)
  have "startsWith (c # cs) pat" unfolding Cons [symmetric] by (simp add: startsWith_def)
  moreover have "drop (length pat) (c # cs) = post" unfolding Cons [symmetric] by simp
  ultimately show ?thesis unfolding Cons by simp
qed

lemma startsWith_shorten:
  assumes "startsWith (xs @ ys) pat" and "length pat \<le> length xs"
  shows "startsWith xs pat"
  using assms by (simp add: startsWith_def)

lemma js_replace_first:
  "\<not> str_includes (pre @ butlast pat) pat \<Longrightarrow> js_replace (pre @ pat @ post) pat rep = pre @ rep @ post"
proof (induction pre)
  case Nil
  show ?case by (simp add: js_replace_here)
next
  case (Cons c pre)
  from Cons.prems have ne: "pat \<noteq> []" by (cases pat) (auto simp: startsWith_def)
  from Cons.prems have no_here: "\<not> startsWith (c # pre @ butlast pat) pat"
    and no_later: "\<not> str_includes (pre @ butlast pat) pat" by auto
  have "c # pre @ pat @ post = (c # pre @ butlast pat) @ ([last pat] @ post)"
    using ne by simp
  moreover have "length pat \<le> length (c # pre @ butlast pat)" using ne by simp
  ultimately have "\<not> startsWith (c # pre @ pat @ post) pat"
    using no_here startsWith_shorten by metis
  then show ?case using Cons.IH [OF no_later] by simp
qed

subsection \<open>Path mapping\<close>

lemma pathToHtmlFile_unfold:
  "pathToHtmlFile path =
     (let rest = (if startsWith path ''/'' then drop 1 path else path)
      in if rest = '''' \<or> rest = ''/'' then ''index.html''
         else takeWhile (\<lambda>c. \<not> isQueryOrFragment c) rest @ ''.html'')"
  by (simp add: pathToHtmlFile_def split_class_first Let_def)

text \<open>
  C1 (as amended). \<^verbatim>\<open>pathToHtmlFile\<close> strips one leading slash; it returns \<^verbatim>\<open>index.html\<close>
  when the remainder is empty or is a single slash (the path \<^verbatim>\<open>//\<close>); otherwise it keeps
  the remainder up to its first \<^verbatim>\<open>?\<close> or \<^verbatim>\<open>#\<close> and appends \<^verbatim>\<open>.html\<close>. The five paths
  of the specification map as it says.
\<close>

theorem pathToHtmlFile_mapping:
  "pathToHtmlFile (CHR ''/'' # rest) =
     (if rest = '''' \<or> rest = ''/'' then ''index.html''
      else takeWhile (\<lambda>c. c \<noteq> CHR ''?'' \<and> c \<noteq> CHR ''#'') rest @ ''.html'')
   \<and> (\<not> startsWith path ''/'' \<longrightarrow>
        pathToHtmlFile path =
          (if path = '''' then ''index.html''
           else takeWhile (\<lambda>c. c \<noteq> CHR ''?'' \<and> c \<noteq> CHR ''#'') path @ ''.html''))
   \<and> pathToHtmlFile ''/'' = ''index.html''
   \<and> pathToHtmlFile '''' = ''index.html''
   \<and> pathToHtmlFile ''/donate'' = ''donate.html''
   \<and> pathToHtmlFile ''/donate?ref=x'' = ''donate.html''
   \<and> pathToHtmlFile ''/get-involved#team'' = ''get-involved.html''"
  by (auto simp: pathToHtmlFile_unfold startsWith_def isQueryOrFragment_def)

theorem pathToHtmlFile_mapping_witness:
  "pathToHtmlFile ''/about?lang=fr#top'' = ''about.html''
   \<and> \<not> startsWith ''team#staff'' ''/'' \<and> pathToHtmlFile ''team#staff'' = ''team.html''"
  using pathToHtmlFile_mapping [of "''about?lang=fr#top''" "''team#staff''"]
  by (simp add: startsWith_def)

text \<open>
  C1 as the specification states it fails at the path \<^verbatim>\<open>//\<close>: the remainder \<^verbatim>\<open>/\<close> is not
  empty, yet the router answers \<^verbatim>\<open>index.html\<close> and not \<^verbatim>\<open>/.html\<close>.
\<close>

theorem pathToHtmlFile_double_slash_counterexample:
  "pathToHtmlFile ''//'' = ''index.html'' \<and> spec_pathToHtmlFile ''//'' = ''/.html''
   \<and> pathToHtmlFile ''//'' \<noteq> spec_pathToHtmlFile ''//''"
  by (simp add: pathToHtmlFile_unfold spec_pathToHtmlFile_def startsWith_def isQueryOrFragment_def)

subsection \<open>What the content loader leaves alone\<close>

lemma updateMetaTags_frame:
  "currentPath (updateMetaTags e html w) = currentPath w"
  "bodyClassList (updateMetaTags e html w) = bodyClassList w"
  "history (updateMetaTags e html w) = history w"
  "fetchLog (updateMetaTags e html w) = fetchLog w"
  "locationHref (updateMetaTags e html w) = locationHref w"
  "docTitle (updateMetaTags e html w) = docTitle w"
  by (simp_all add: updateMetaTags_def Let_def split: option.splits)

lemma updateMetaTags_container:
  "document (updateMetaTags e html w) contentSelector = document w contentSelector"
  by (simp add: updateMetaTags_def Let_def contentSelector_def canonicalSelector_def
        ogUrlSelector_def split: option.splits)

lemma tryLoad_currentPath:
  "currentPath (snd (tryLoad e file path upd w)) = currentPath w"
  by (simp add: tryLoad_def Let_def updateMetaTags_frame split: fetch_result.splits option.splits)

lemma loadContent_alt:
  "loadContent e path upd w =
     (let r = tryLoad e (pathToHtmlFile path) path upd w;
          w2 = (case fst r of
                  None \<Rightarrow> snd r
                | Some error \<Rightarrow> (snd r)\<lparr>consoleErrors := consoleErrors (snd r) @ [error],
                                          locationHref := Some (pathToHtmlFile path)\<rparr>)
      in w2\<lparr>bodyClassList := classList_remove loadingClass (bodyClassList w2)\<rparr>)"
  by (cases "tryLoad e (pathToHtmlFile path) path upd w") (simp add: loadContent_def Let_def split: option.splits)

lemma loadContent_currentPath:
  "currentPath (loadContent e path upd w) = currentPath w"
  by (simp add: loadContent_alt Let_def tryLoad_currentPath split: option.splits)

lemma tryLoad_fetchLog:
  "fetchLog (snd (tryLoad e file path upd w)) = fetchLog w @ [file]"
  by (simp add: tryLoad_def Let_def updateMetaTags_frame split: fetch_result.splits option.splits)

lemma loadContent_fetchLog:
  "fetchLog (loadContent e path upd w) = fetchLog w @ [pathToHtmlFile path]"
  by (simp add: loadContent_alt Let_def tryLoad_fetchLog split: option.splits)

lemma tryLoad_not_ok:
  "fetch e file = Response False body \<Longrightarrow>
   tryLoad e file path upd w =
     (Some (LoadFailed file),
      w\<lparr>bodyClassList := classList_add loadingClass (bodyClassList w),
        fetchLog := fetchLog w @ [file]\<rparr>)"
  by (simp add: tryLoad_def Let_def)

lemma tryLoad_rejected:
  "fetch e file = NetworkError \<Longrightarrow>
   tryLoad e file path upd w =
     (Some FetchRejected,
      w\<lparr>bodyClassList := classList_add loadingClass (bodyClassList w),
        fetchLog := fetchLog w @ [file]\<rparr>)"
  by (simp add: tryLoad_def Let_def)

lemma loadContent_thrown:
  "fst (tryLoad e (pathToHtmlFile path) path upd w) \<noteq> None \<Longrightarrow>
   locationHref (loadContent e path upd w) = Some (pathToHtmlFile path)"
  by (auto simp add: loadContent_alt Let_def split: option.splits)

lemma loadContent_document:
  "document (loadContent e path upd w) = document (snd (tryLoad e (pathToHtmlFile path) path upd w))"
  by (simp add: loadContent_alt Let_def split: option.splits)

lemma loadContent_history:
  "history (loadContent e path upd w) = history (snd (tryLoad e (pathToHtmlFile path) path upd w))"
  by (simp add: loadContent_alt Let_def split: option.splits)

lemma tryLoad_container:
  "fetch e file = Response True html \<Longrightarrow> document w contentSelector = Some live \<Longrightarrow>
   document (snd (tryLoad e file path upd w)) contentSelector
     = Some (live\<lparr>innerHTML := extractContent e html\<rparr>)"
  by (simp add: tryLoad_def Let_def updateMetaTags_container split: option.splits)

lemma tryLoad_history_pushed:
  "fst (tryLoad e file path True w) = None \<Longrightarrow>
   history (snd (tryLoad e file path True w))
     = \<lparr>entryState = StateObj (Some path), entryUrl = origin e @ path\<rparr> # history w"
  by (simp add: tryLoad_def Let_def updateMetaTags_frame
           split: fetch_result.splits option.splits if_splits)

lemma tryLoad_history_kept:
  "history (snd (tryLoad e file path False w)) = history w"
  by (simp add: tryLoad_def Let_def updateMetaTags_frame
           split: fetch_result.splits option.splits)

subsection \<open>The concrete site, evaluated\<close>

lemma pathToHtmlFile_nope: "pathToHtmlFile ''/nope'' = ''nope.html''"
  by (simp add: pathToHtmlFile_unfold startsWith_def isQueryOrFragment_def)

lemma pathToHtmlFile_donate: "pathToHtmlFile ''/donate'' = ''donate.html''"
  by (simp add: pathToHtmlFile_unfold startsWith_def isQueryOrFragment_def)

lemma pathToHtmlFile_empty: "pathToHtmlFile '''' = ''index.html''"
  by (simp add: pathToHtmlFile_unfold startsWith_def)

lemma siteFetch_nope: "fetch siteEnv ''nope.html'' = Response False ''Not Found''"
  by (simp add: siteEnv_def siteFetch_def)

lemma siteFetch_donate: "fetch siteEnv ''donate.html'' = Response True donateHtml"
  by (simp add: siteEnv_def siteFetch_def)

lemma siteParse_donate: "parseFromString siteEnv donateHtml = donateDom"
  by (simp add: siteEnv_def siteParse_def)

lemma siteParse_fragment: "parseFromString siteEnv fragmentHtml = Map.empty"
  by (simp add: siteEnv_def siteParse_def fragmentHtml_def donateHtml_def)

lemma siteFetch_index: "fetch siteEnv ''index.html'' = Response True fragmentHtml"
  by (simp add: siteEnv_def siteFetch_def)

lemma donateDom_container:
  "donateDom contentSelector = Some (blankElement\<lparr>innerHTML := ''Hello'', textContent := ''Hello''\<rparr>)"
  by (simp add: donateDom_def contentSelector_def titleSelector_def canonicalSelector_def
        ogUrlSelector_def)

lemma homeDom_container:
  "document homeWorld contentSelector = Some (blankElement\<lparr>innerHTML := ''<p>Welcome</p>''\<rparr>)"
  by (simp add: homeWorld_def homeDom_def contentSelector_def canonicalSelector_def
        ogUrlSelector_def)

lemma site_accepts_donate: "pushStateAccepts siteEnv (origin siteEnv @ ''/donate'')"
  by (simp add: siteEnv_def httpUrlOrigin_def afterScheme_def startsWith_def isPathEnd_def)

lemma site_accepts_empty: "pushStateAccepts siteEnv (origin siteEnv @ '''')"
  by (simp add: siteEnv_def httpUrlOrigin_def afterScheme_def startsWith_def isPathEnd_def)

lemma site_scripts: "\<not> scriptsThrow siteEnv"
  by (simp add: siteEnv_def)

lemma site_tryLoad_donate: "fst (tryLoad siteEnv ''donate.html'' ''/donate'' True w) = None"
  by (simp add: tryLoad_def Let_def siteFetch_donate site_accepts_donate site_scripts)

lemma site_tryLoad_empty: "fst (tryLoad siteEnv ''index.html'' '''' True w) = None"
  using site_accepts_empty
  by (simp add: tryLoad_def Let_def siteFetch_index site_scripts)

lemma site_url_relative: "urlPathname siteEnv ''/mission'' = None"
  by (simp add: siteEnv_def httpUrlPathname_def afterScheme_def startsWith_def)

lemma site_url_absolute: "urlPathname siteEnv ''https://gift.example/donate?ref=x'' = Some ''/donate''"
  by (simp add: siteEnv_def httpUrlPathname_def afterScheme_def startsWith_def isPathEnd_def
        isQueryOrFragment_def)

lemma donateDom_canonical:
  "donateDom canonicalSelector = Some (blankElement\<lparr>href := ''https://x/donate.html''\<rparr>)"
  by (simp add: donateDom_def canonicalSelector_def ogUrlSelector_def)

lemma donateDom_ogUrl:
  "donateDom ogUrlSelector = Some (blankElement\<lparr>content := ''https://x/donate.html''\<rparr>)"
  by (simp add: donateDom_def)

lemma homeDom_canonical:
  "document homeWorld canonicalSelector = Some (blankElement\<lparr>href := ''https://x/''\<rparr>)"
  by (simp add: homeWorld_def homeDom_def canonicalSelector_def ogUrlSelector_def)

lemma homeDom_ogUrl:
  "document homeWorld ogUrlSelector = Some (blankElement\<lparr>content := ''https://x/''\<rparr>)"
  by (simp add: homeWorld_def homeDom_def)

lemma aboutWorld_fields:
  "locationPathname aboutWorld = ''/about''" "docTitle aboutWorld = ''Page not found''"
  "fetchLog aboutWorld = []" "history aboutWorld = []"
  by (simp_all add: aboutWorld_def homeWorld_def)

lemma pathToHtmlFile_about: "pathToHtmlFile ''/about'' = ''about.html''"
  by (simp add: pathToHtmlFile_unfold startsWith_def isQueryOrFragment_def)

subsection \<open>Navigation to the active path\<close>

text \<open>
  C3. \<^verbatim>\<open>navigate\<close> with the path that is already recorded as current does nothing: the
  whole state is returned as it was, so nothing is fetched, no history entry is pushed,
  and the recorded path, the document and its title are unchanged.
\<close>

theorem navigate_active_path_noop:
  "navigate e (currentPath w) w = w
   \<and> fetchLog (navigate e (currentPath w) w) = fetchLog w
   \<and> history (navigate e (currentPath w) w) = history w
   \<and> currentPath (navigate e (currentPath w) w) = currentPath w
   \<and> document (navigate e (currentPath w) w) = document w
   \<and> docTitle (navigate e (currentPath w) w) = docTitle w"
  by (simp add: navigate_def)

theorem navigate_active_path_noop_witness:
  "currentPath homeWorld = ''/'' \<and> navigate siteEnv ''/'' homeWorld = homeWorld
   \<and> fetchLog (navigate siteEnv ''/'' homeWorld) = []
   \<and> history (navigate siteEnv ''/'' homeWorld) = []"
  using navigate_active_path_noop [of siteEnv homeWorld]
  by (simp add: homeWorld_def)

subsection \<open>The loading state and the failure fallback\<close>

text \<open>
  C4. Whatever the content loader meets (a rejected fetch, a response that is not ok, a
  refused history push, a throwing plugin, or none of these), the loading class is not on
  the body when it is done. When the response is not ok (a 404, say),
  \<^verbatim>\<open>window.location.href\<close> has been set to the mapped \<^verbatim>\<open>.html\<close> file.
\<close>

theorem loadContent_loading_class_removed:
  "loadingClass \<notin> set (bodyClassList (loadContent e path upd w))
   \<and> (fetch e (pathToHtmlFile path) = Response False body \<longrightarrow>
        locationHref (loadContent e path upd w) = Some (pathToHtmlFile path)
        \<and> loadingClass \<notin> set (bodyClassList (loadContent e path upd w)))"
proof -
  have removed: "loadingClass \<notin> set (bodyClassList (loadContent e path upd w))"
    by (simp add: loadContent_alt Let_def classList_remove_def)
  have "locationHref (loadContent e path upd w) = Some (pathToHtmlFile path)"
    if "fetch e (pathToHtmlFile path) = Response False body"
    using that by (intro loadContent_thrown) (simp add: tryLoad_not_ok)
  with removed show ?thesis by blast
qed

theorem loadContent_loading_class_removed_witness:
  "fetch siteEnv (pathToHtmlFile ''/nope'') = Response False ''Not Found''
   \<and> locationHref (loadContent siteEnv ''/nope'' True homeWorld) = Some ''nope.html''
   \<and> ''is-loading'' \<notin> set (bodyClassList (loadContent siteEnv ''/nope'' True homeWorld))"
  using loadContent_loading_class_removed [of siteEnv "''/nope''" True homeWorld "''Not Found''"]
  by (simp add: pathToHtmlFile_nope siteFetch_nope loadingClass_def)

subsection \<open>The recorded path after a failed load\<close>

text \<open>
  C10. \<^verbatim>\<open>navigate\<close> to a path other than the recorded one writes the target into
  \<^verbatim>\<open>currentPath\<close> first and runs the content loader on the state so changed; the loader
  never writes \<^verbatim>\<open>currentPath\<close>, so the target stays recorded. When the load throws, the
  fallback navigation is made and the recorded path is still the failed target, not the
  path shown before.
\<close>

theorem navigate_records_path_before_load:
  "path \<noteq> currentPath w \<longrightarrow>
     navigate e path w = loadContent e path True (w\<lparr>currentPath := path\<rparr>)
     \<and> currentPath (navigate e path w) = path
     \<and> (fst (tryLoad e (pathToHtmlFile path) path True (w\<lparr>currentPath := path\<rparr>)) \<noteq> None \<longrightarrow>
          locationHref (navigate e path w) = Some (pathToHtmlFile path)
          \<and> currentPath (navigate e path w) = path
          \<and> currentPath (navigate e path w) \<noteq> currentPath w)"
  by (simp add: navigate_def loadContent_currentPath loadContent_thrown)

theorem navigate_records_path_before_load_witness:
  "''/nope'' \<noteq> currentPath homeWorld
   \<and> fst (tryLoad siteEnv (pathToHtmlFile ''/nope'') ''/nope'' True (homeWorld\<lparr>currentPath := ''/nope''\<rparr>))
       = Some (LoadFailed ''nope.html'')
   \<and> locationHref (navigate siteEnv ''/nope'' homeWorld) = Some ''nope.html''
   \<and> currentPath (navigate siteEnv ''/nope'' homeWorld) = ''/nope''"
proof -
  have ne: "''/nope'' \<noteq> currentPath homeWorld"
    by (simp add: homeWorld_def)
  have thrown: "fst (tryLoad siteEnv (pathToHtmlFile ''/nope'') ''/nope'' True
                  (homeWorld\<lparr>currentPath := ''/nope''\<rparr>)) = Some (LoadFailed ''nope.html'')"
    by (simp add: pathToHtmlFile_nope tryLoad_not_ok [OF siteFetch_nope])
  from thrown
  have failed: "fst (tryLoad siteEnv (pathToHtmlFile ''/nope'') ''/nope'' True
                  (homeWorld\<lparr>currentPath := ''/nope''\<rparr>)) \<noteq> None"
    by simp
  from navigate_records_path_before_load [of "''/nope''" homeWorld siteEnv] ne failed
  have "locationHref (navigate siteEnv ''/nope'' homeWorld) = Some (pathToHtmlFile ''/nope'')
        \<and> currentPath (navigate siteEnv ''/nope'' homeWorld) = ''/nope''"
    by blast
  with ne thrown show ?thesis by (simp add: pathToHtmlFile_nope)
qed

subsection \<open>Content extraction and the splice\<close>

text \<open>
  C5. \<^verbatim>\<open>extractContent\<close> returns the inner markup of the element of the fetched HTML that
  matches the content-container selector when there is one, and the whole fetched HTML
  when there is none. So when the fetch succeeds with HTML whose container holds
  \<^verbatim>\<open>Hello\<close> and the live document has a container, the loader leaves the live container's
  inner markup equal to \<^verbatim>\<open>Hello\<close>, whatever happens after the splice.
\<close>

theorem extractContent_container_or_whole:
  "(parseFromString e html contentSelector = Some el \<longrightarrow> extractContent e html = innerHTML el)
   \<and> (parseFromString e html contentSelector = None \<longrightarrow> extractContent e html = html)
   \<and> (fetch e (pathToHtmlFile path) = Response True html
        \<and> parseFromString e html contentSelector = Some el \<and> innerHTML el = ''Hello''
        \<and> document w contentSelector = Some live \<longrightarrow>
          document (loadContent e path upd w) contentSelector = Some (live\<lparr>innerHTML := ''Hello''\<rparr>))"
  by (simp add: extractContent_def loadContent_document tryLoad_container)

theorem extractContent_container_or_whole_witness:
  "fetch siteEnv (pathToHtmlFile ''/donate'') = Response True donateHtml
   \<and> parseFromString siteEnv donateHtml contentSelector
       = Some (blankElement\<lparr>innerHTML := ''Hello'', textContent := ''Hello''\<rparr>)
   \<and> extractContent siteEnv donateHtml = ''Hello''
   \<and> document (loadContent siteEnv ''/donate'' True homeWorld) contentSelector
       = Some (blankElement\<lparr>innerHTML := ''Hello''\<rparr>)
   \<and> parseFromString siteEnv fragmentHtml contentSelector = None
   \<and> extractContent siteEnv fragmentHtml = fragmentHtml"
proof -
  let ?el = "blankElement\<lparr>innerHTML := ''Hello'', textContent := ''Hello''\<rparr>"
  let ?live = "blankElement\<lparr>innerHTML := ''<p>Welcome</p>''\<rparr>"
  have fetched: "fetch siteEnv (pathToHtmlFile ''/donate'') = Response True donateHtml"
    by (simp add: pathToHtmlFile_donate siteFetch_donate)
  have parsed: "parseFromString siteEnv donateHtml contentSelector = Some ?el"
    by (simp add: siteParse_donate donateDom_container)
  have inner: "innerHTML ?el = ''Hello''"
    by simp
  have absent: "parseFromString siteEnv fragmentHtml contentSelector = None"
    by (simp add: siteParse_fragment)
  from extractContent_container_or_whole
         [of siteEnv donateHtml ?el "''/donate''" homeWorld ?live True]
       fetched parsed inner homeDom_container
  have "extractContent siteEnv donateHtml = innerHTML ?el
        \<and> document (loadContent siteEnv ''/donate'' True homeWorld) contentSelector
            = Some (?live\<lparr>innerHTML := ''Hello''\<rparr>)"
    by blast
  moreover
  from extractContent_container_or_whole
         [of siteEnv fragmentHtml ?el "''/donate''" homeWorld ?live True] absent
  have "extractContent siteEnv fragmentHtml = fragmentHtml"
    by blast
  ultimately show ?thesis
    using fetched parsed absent by (simp add: blankElement_def)
qed

subsection \<open>History entries and back/forward\<close>

text \<open>
  C8 (as amended). When a content load with history update requested completes without
  an exception, the entry pushed on the history carries exactly the clean path as its
  state and base URL plus path as its URL. On a later \<^verbatim>\<open>popstate\<close> event carrying that
  state the content loader runs with the same path and without history update, provided
  the path is not the empty string.
\<close>

theorem pushState_popstate_roundtrip:
  "fst (tryLoad e (pathToHtmlFile path) path True w) = None \<longrightarrow>
     history (loadContent e path True w)
       = \<lparr>entryState = StateObj (Some path), entryUrl = origin e @ path\<rparr> # history w
     \<and> (path \<noteq> '''' \<longrightarrow>
          onPopState e (entryState (hd (history (loadContent e path True w)))) w'
            = loadContent e path False w'
          \<and> history (onPopState e (entryState (hd (history (loadContent e path True w)))) w')
            = history w')"
  by (simp add: loadContent_history tryLoad_history_pushed tryLoad_history_kept onPopState_def)

theorem pushState_popstate_roundtrip_witness:
  "fst (tryLoad siteEnv (pathToHtmlFile ''/donate'') ''/donate'' True homeWorld) = None
   \<and> history (loadContent siteEnv ''/donate'' True homeWorld)
       = [\<lparr>entryState = StateObj (Some ''/donate''), entryUrl = ''https://gift.example/donate''\<rparr>]
   \<and> onPopState siteEnv (StateObj (Some ''/donate'')) homeWorld
       = loadContent siteEnv ''/donate'' False homeWorld
   \<and> history (onPopState siteEnv (StateObj (Some ''/donate'')) homeWorld) = []"
proof -
  have ok: "fst (tryLoad siteEnv (pathToHtmlFile ''/donate'') ''/donate'' True homeWorld) = None"
    by (simp add: pathToHtmlFile_donate site_tryLoad_donate)
  have ne: "''/donate'' \<noteq> ''''"
    by simp
  from pushState_popstate_roundtrip [of siteEnv "''/donate''" homeWorld homeWorld] ok ne
  have "history (loadContent siteEnv ''/donate'' True homeWorld)
          = \<lparr>entryState = StateObj (Some ''/donate''),
              entryUrl = origin siteEnv @ ''/donate''\<rparr> # history homeWorld
        \<and> onPopState siteEnv
              (entryState (hd (history (loadContent siteEnv ''/donate'' True homeWorld)))) homeWorld
            = loadContent siteEnv ''/donate'' False homeWorld
        \<and> history (onPopState siteEnv
              (entryState (hd (history (loadContent siteEnv ''/donate'' True homeWorld)))) homeWorld)
            = history homeWorld"
    by blast
  then have hist: "history (loadContent siteEnv ''/donate'' True homeWorld)
                     = \<lparr>entryState = StateObj (Some ''/donate''),
                         entryUrl = origin siteEnv @ ''/donate''\<rparr> # history homeWorld"
    and pop: "onPopState siteEnv
                (entryState (hd (history (loadContent siteEnv ''/donate'' True homeWorld)))) homeWorld
              = loadContent siteEnv ''/donate'' False homeWorld"
    and kept: "history (onPopState siteEnv
                (entryState (hd (history (loadContent siteEnv ''/donate'' True homeWorld)))) homeWorld)
              = history homeWorld"
    by blast+
  have org: "origin siteEnv = ''https://gift.example''"
    by (simp add: siteEnv_def)
  have h0: "history homeWorld = []"
    by (simp add: homeWorld_def)
  have st: "entryState (hd (history (loadContent siteEnv ''/donate'' True homeWorld)))
              = StateObj (Some ''/donate'')"
    by (simp add: hist)
  from hist have "history (loadContent siteEnv ''/donate'' True homeWorld)
       = [\<lparr>entryState = StateObj (Some ''/donate''), entryUrl = ''https://gift.example/donate''\<rparr>]"
    by (simp add: org h0)
  moreover from pop have "onPopState siteEnv (StateObj (Some ''/donate'')) homeWorld
       = loadContent siteEnv ''/donate'' False homeWorld"
    by (simp only: st)
  moreover from kept have "history (onPopState siteEnv (StateObj (Some ''/donate'')) homeWorld) = []"
    by (simp only: st h0)
  ultimately show ?thesis
    using ok by blast
qed

text \<open>
  C8 as the specification states it fails for the empty path: the load succeeds and
  pushes an entry whose state holds the empty path, but the \<^verbatim>\<open>popstate\<close> listener tests
  \<^verbatim>\<open>e.state.path\<close> for truth, the empty string counts as false, and the loader is not run.
\<close>

theorem popstate_empty_path_counterexample:
  "fst (tryLoad siteEnv (pathToHtmlFile '''') '''' True homeWorld) = None
   \<and> entryState (hd (history (loadContent siteEnv '''' True homeWorld))) = StateObj (Some '''')
   \<and> onPopState siteEnv (StateObj (Some '''')) homeWorld = homeWorld
   \<and> fetchLog (onPopState siteEnv (StateObj (Some '''')) homeWorld) = []
   \<and> fetchLog (loadContent siteEnv '''' False homeWorld) = [''index.html'']
   \<and> onPopState siteEnv (StateObj (Some '''')) homeWorld \<noteq> loadContent siteEnv '''' False homeWorld"
proof -
  have ok: "fst (tryLoad siteEnv (pathToHtmlFile '''') '''' True homeWorld) = None"
    by (simp add: pathToHtmlFile_empty site_tryLoad_empty)
  then have pushed: "entryState (hd (history (loadContent siteEnv '''' True homeWorld))) = StateObj (Some '''')"
    by (simp add: loadContent_history tryLoad_history_pushed)
  have ignored: "onPopState siteEnv (StateObj (Some '''')) homeWorld = homeWorld"
    by (simp add: onPopState_def)
  have quiet: "fetchLog homeWorld = []"
    by (simp add: homeWorld_def)
  have loud: "fetchLog (loadContent siteEnv '''' False homeWorld) = [''index.html'']"
    by (simp add: loadContent_fetchLog pathToHtmlFile_empty quiet)
  from quiet loud have "homeWorld \<noteq> loadContent siteEnv '''' False homeWorld"
    by auto
  with ok pushed ignored quiet loud show ?thesis by simp
qed

subsection \<open>Canonical link and Open-Graph URL\<close>

lemma selectors_distinct:
  "canonicalSelector \<noteq> ogUrlSelector" "ogUrlSelector \<noteq> canonicalSelector"
  by (simp_all add: canonicalSelector_def ogUrlSelector_def)

lemma updateMetaTags_canonical:
  "document (updateMetaTags e html w) canonicalSelector =
     (case parseFromString e html canonicalSelector of
        None \<Rightarrow> document w canonicalSelector
      | Some src \<Rightarrow>
          (case document w canonicalSelector of
             None \<Rightarrow> None
           | Some dst \<Rightarrow> Some (dst\<lparr>href := js_replace (href src) ''.html'' ''''\<rparr>)))"
  by (simp add: updateMetaTags_def Let_def selectors_distinct split: option.splits)

lemma updateMetaTags_ogUrl:
  "document (updateMetaTags e html w) ogUrlSelector =
     (case parseFromString e html ogUrlSelector of
        None \<Rightarrow> document w ogUrlSelector
      | Some src \<Rightarrow>
          (case document w ogUrlSelector of
             None \<Rightarrow> None
           | Some dst \<Rightarrow> Some (dst\<lparr>content := js_replace (content src) ''.html'' ''''\<rparr>)))"
  by (simp add: updateMetaTags_def Let_def selectors_distinct split: option.splits)

lemma strip_html_first:
  "\<not> str_includes (pre @ ''.htm'') ''.html'' \<Longrightarrow>
   js_replace (pre @ ''.html'' @ post) ''.html'' '''' = pre @ post"
  using js_replace_first [of pre "''.html''" post "''''"] by simp

text \<open>
  What \<^verbatim>\<open>updateMetaTags\<close> writes: the fetched canonical link's \<^verbatim>\<open>href\<close> and the fetched
  Open-Graph URL's \<^verbatim>\<open>content\<close> go into the live elements, each passed through
  \<^verbatim>\<open>replace('.html', '')\<close>, when the fetched element and the live element both exist; when
  either is missing the live document keeps what it had. The replacement removes the
  first occurrence of \<^verbatim>\<open>.html\<close> only, and leaves a value without one unchanged.
\<close>

lemma updateMetaTags_first_occurrence:
  "(parseFromString e html canonicalSelector = Some src \<and> document w canonicalSelector = Some dst \<longrightarrow>
      document (updateMetaTags e html w) canonicalSelector
        = Some (dst\<lparr>href := js_replace (href src) ''.html'' ''''\<rparr>))
   \<and> (parseFromString e html canonicalSelector = None \<or> document w canonicalSelector = None \<longrightarrow>
      document (updateMetaTags e html w) canonicalSelector = document w canonicalSelector)
   \<and> (parseFromString e html ogUrlSelector = Some src' \<and> document w ogUrlSelector = Some dst' \<longrightarrow>
      document (updateMetaTags e html w) ogUrlSelector
        = Some (dst'\<lparr>content := js_replace (content src') ''.html'' ''''\<rparr>))
   \<and> (parseFromString e html ogUrlSelector = None \<or> document w ogUrlSelector = None \<longrightarrow>
      document (updateMetaTags e html w) ogUrlSelector = document w ogUrlSelector)
   \<and> (\<not> str_includes (pre @ ''.htm'') ''.html'' \<longrightarrow>
      js_replace (pre @ ''.html'' @ post) ''.html'' '''' = pre @ post)
   \<and> (\<not> str_includes s ''.html'' \<longrightarrow> js_replace s ''.html'' '''' = s)
   \<and> js_replace ''https://x/donate.html'' ''.html'' '''' = ''https://x/donate''"
proof -
  have example: "js_replace ''https://x/donate.html'' ''.html'' '''' = ''https://x/donate''"
    by (simp add: startsWith_def)
  have canonical_both:
    "parseFromString e html canonicalSelector = Some src \<and> document w canonicalSelector = Some dst \<longrightarrow>
       document (updateMetaTags e html w) canonicalSelector
         = Some (dst\<lparr>href := js_replace (href src) ''.html'' ''''\<rparr>)"
    by (simp add: updateMetaTags_canonical)
  have canonical_kept:
    "parseFromString e html canonicalSelector = None \<or> document w canonicalSelector = None \<longrightarrow>
       document (updateMetaTags e html w) canonicalSelector = document w canonicalSelector"
    by (auto simp: updateMetaTags_canonical split: option.splits)
  have og_both:
    "parseFromString e html ogUrlSelector = Some src' \<and> document w ogUrlSelector = Some dst' \<longrightarrow>
       document (updateMetaTags e html w) ogUrlSelector
         = Some (dst'\<lparr>content := js_replace (content src') ''.html'' ''''\<rparr>)"
    by (simp add: updateMetaTags_ogUrl)
  have og_kept:
    "parseFromString e html ogUrlSelector = None \<or> document w ogUrlSelector = None \<longrightarrow>
       document (updateMetaTags e html w) ogUrlSelector = document w ogUrlSelector"
    by (auto simp: updateMetaTags_ogUrl split: option.splits)
  have first: "\<not> str_includes (pre @ ''.htm'') ''.html'' \<longrightarrow>
       js_replace (pre @ ''.html'' @ post) ''.html'' '''' = pre @ post"
    using strip_html_first by blast
  have absent: "\<not> str_includes s ''.html'' \<longrightarrow> js_replace s ''.html'' '''' = s"
    using js_replace_absent by blast
  from canonical_both canonical_kept og_both og_kept first absent example
  show ?thesis by blast
qed

lemma updateMetaTags_first_occurrence_example:
  "parseFromString siteEnv donateHtml canonicalSelector
     = Some (blankElement\<lparr>href := ''https://x/donate.html''\<rparr>)
   \<and> document homeWorld canonicalSelector = Some (blankElement\<lparr>href := ''https://x/''\<rparr>)
   \<and> document (updateMetaTags siteEnv donateHtml homeWorld) canonicalSelector
       = Some (blankElement\<lparr>href := ''https://x/donate''\<rparr>)
   \<and> parseFromString siteEnv donateHtml ogUrlSelector
       = Some (blankElement\<lparr>content := ''https://x/donate.html''\<rparr>)
   \<and> document homeWorld ogUrlSelector = Some (blankElement\<lparr>content := ''https://x/''\<rparr>)
   \<and> document (updateMetaTags siteEnv donateHtml homeWorld) ogUrlSelector
       = Some (blankElement\<lparr>content := ''https://x/donate''\<rparr>)
   \<and> parseFromString siteEnv fragmentHtml canonicalSelector = None
   \<and> document (updateMetaTags siteEnv fragmentHtml homeWorld) canonicalSelector
       = Some (blankElement\<lparr>href := ''https://x/''\<rparr>)
   \<and> parseFromString siteEnv fragmentHtml ogUrlSelector = None
   \<and> document (updateMetaTags siteEnv fragmentHtml homeWorld) ogUrlSelector
       = Some (blankElement\<lparr>content := ''https://x/''\<rparr>)
   \<and> \<not> str_includes (''https://x/a'' @ ''.htm'') ''.html''
   \<and> js_replace (''https://x/a'' @ ''.html'' @ ''?next=b.html'') ''.html'' '''' = ''https://x/a?next=b.html''
   \<and> \<not> str_includes ''https://x/'' ''.html''
   \<and> js_replace ''https://x/'' ''.html'' '''' = ''https://x/''"
proof -
  let ?src = "blankElement\<lparr>href := ''https://x/donate.html''\<rparr>"
  let ?dst = "blankElement\<lparr>href := ''https://x/''\<rparr>"
  let ?src' = "blankElement\<lparr>content := ''https://x/donate.html''\<rparr>"
  let ?dst' = "blankElement\<lparr>content := ''https://x/''\<rparr>"
  have p1: "parseFromString siteEnv donateHtml canonicalSelector = Some ?src"
    by (simp add: siteParse_donate donateDom_canonical)
  have p2: "parseFromString siteEnv donateHtml ogUrlSelector = Some ?src'"
    by (simp add: siteParse_donate donateDom_ogUrl)
  have q1: "parseFromString siteEnv fragmentHtml canonicalSelector = None"
    by (simp add: siteParse_fragment)
  have q2: "parseFromString siteEnv fragmentHtml ogUrlSelector = None"
    by (simp add: siteParse_fragment)
  have n1: "\<not> str_includes (''https://x/a'' @ ''.htm'') ''.html''"
    by (simp add: startsWith_def)
  have n2: "\<not> str_includes ''https://x/'' ''.html''"
    by (simp add: startsWith_def)
  from updateMetaTags_first_occurrence
         [of siteEnv donateHtml ?src homeWorld ?dst ?src' ?dst'
             "''https://x/a''" "''?next=b.html''" "''https://x/''"]
       p1 p2 homeDom_canonical homeDom_ogUrl n1 n2
  have a: "document (updateMetaTags siteEnv donateHtml homeWorld) canonicalSelector
             = Some (?dst\<lparr>href := js_replace (href ?src) ''.html'' ''''\<rparr>)"
    and b: "document (updateMetaTags siteEnv donateHtml homeWorld) ogUrlSelector
             = Some (?dst'\<lparr>content := js_replace (content ?src') ''.html'' ''''\<rparr>)"
    and c: "js_replace (''https://x/a'' @ ''.html'' @ ''?next=b.html'') ''.html'' ''''
             = ''https://x/a'' @ ''?next=b.html''"
    and d: "js_replace ''https://x/'' ''.html'' '''' = ''https://x/''"
    and ex: "js_replace ''https://x/donate.html'' ''.html'' '''' = ''https://x/donate''"
    by blast+
  from updateMetaTags_first_occurrence
         [of siteEnv fragmentHtml ?src homeWorld ?dst ?src' ?dst'
             "''https://x/a''" "''?next=b.html''" "''https://x/''"]
       q1 q2
  have k1: "document (updateMetaTags siteEnv fragmentHtml homeWorld) canonicalSelector
              = document homeWorld canonicalSelector"
    and k2: "document (updateMetaTags siteEnv fragmentHtml homeWorld) ogUrlSelector
              = document homeWorld ogUrlSelector"
    by blast+
  have a': "document (updateMetaTags siteEnv donateHtml homeWorld) canonicalSelector
              = Some (blankElement\<lparr>href := ''https://x/donate''\<rparr>)"
    unfolding a by (simp add: ex blankElement_def del: js_replace.simps)
  have b': "document (updateMetaTags siteEnv donateHtml homeWorld) ogUrlSelector
              = Some (blankElement\<lparr>content := ''https://x/donate''\<rparr>)"
    unfolding b by (simp add: ex blankElement_def del: js_replace.simps)
  have c': "js_replace (''https://x/a'' @ ''.html'' @ ''?next=b.html'') ''.html'' ''''
              = ''https://x/a?next=b.html''"
    unfolding c by simp
  from p1 p2 q1 q2 n1 n2 a' b' c' d k1 k2 homeDom_canonical homeDom_ogUrl
  show ?thesis by (simp only: simp_thms)
qed

lemma mirrorDom_canonical:
  "parseFromString mirrorEnv html canonicalSelector
     = Some (blankElement\<lparr>href := ''https://www.html5.example/donate.html''\<rparr>)"
  by (simp add: mirrorEnv_def mirrorDom_def canonicalSelector_def ogUrlSelector_def)

lemma mirrorDom_ogUrl:
  "parseFromString mirrorEnv html ogUrlSelector
     = Some (blankElement\<lparr>content := ''https://www.html5.example/donate.html''\<rparr>)"
  by (simp add: mirrorEnv_def mirrorDom_def)

lemma replace_in_host:
  "js_replace ''https://www.html5.example/donate.html'' ''.html'' ''''
     = ''https://www5.example/donate.html''"
  by (simp add: startsWith_def)

text \<open>
  C6. The specification asks that the canonical link and the Open-Graph URL are copied
  with \<^verbatim>\<open>.html\<close> stripped, so that \<^verbatim>\<open>https://x/donate.html\<close> becomes \<^verbatim>\<open>https://x/donate\<close>.
  \<^verbatim>\<open>updateMetaTags\<close> cuts the first occurrence of \<^verbatim>\<open>.html\<close> wherever it stands: for
  \<^verbatim>\<open>https://www.html5.example/donate.html\<close> it writes \<^verbatim>\<open>https://www5.example/donate.html\<close>
  into both live elements, a value with another host that still contains \<^verbatim>\<open>.html\<close>, and
  not \<^verbatim>\<open>https://www.html5.example/donate\<close>.
\<close>

theorem updateMetaTags_cuts_host_not_suffix:
  "document (updateMetaTags mirrorEnv html homeWorld) canonicalSelector
     = Some (blankElement\<lparr>href := ''https://www5.example/donate.html''\<rparr>)
   \<and> document (updateMetaTags mirrorEnv html homeWorld) ogUrlSelector
     = Some (blankElement\<lparr>content := ''https://www5.example/donate.html''\<rparr>)
   \<and> str_includes ''https://www5.example/donate.html'' ''.html''
   \<and> ''https://www5.example/donate.html'' \<noteq> ''https://www.html5.example/donate''"
proof -
  have canonical: "document (updateMetaTags mirrorEnv html homeWorld) canonicalSelector
                     = Some (blankElement\<lparr>href := ''https://www5.example/donate.html''\<rparr>)"
    by (simp add: updateMetaTags_canonical mirrorDom_canonical homeDom_canonical
          replace_in_host blankElement_def del: js_replace.simps)
  have og: "document (updateMetaTags mirrorEnv html homeWorld) ogUrlSelector
              = Some (blankElement\<lparr>content := ''https://www5.example/donate.html''\<rparr>)"
    by (simp add: updateMetaTags_ogUrl mirrorDom_ogUrl homeDom_ogUrl
          replace_in_host blankElement_def del: js_replace.simps)
  have still: "str_includes ''https://www5.example/donate.html'' ''.html''"
    by (simp add: startsWith_def)
  from canonical og still show ?thesis by simp
qed

subsection \<open>Path of a URL\<close>

text \<open>
  C9. \<^verbatim>\<open>getPathFromUrl\<close> always returns a string: the input itself when the URL
  constructor throws on it (a relative href, for one), and the path component when the
  input parses as an absolute URL.
\<close>

theorem getPathFromUrl_total:
  "(urlPathname e url = None \<longrightarrow> getPathFromUrl e url = url)
   \<and> (urlPathname e url = Some pathname \<longrightarrow> getPathFromUrl e url = pathname)"
  by (simp add: getPathFromUrl_def)

theorem getPathFromUrl_total_witness:
  "urlPathname siteEnv ''/mission'' = None \<and> getPathFromUrl siteEnv ''/mission'' = ''/mission''
   \<and> urlPathname siteEnv ''https://gift.example/donate?ref=x'' = Some ''/donate''
   \<and> getPathFromUrl siteEnv ''https://gift.example/donate?ref=x'' = ''/donate''"
  using getPathFromUrl_total [of siteEnv "''/mission''" "''/donate''"]
        getPathFromUrl_total [of siteEnv "''https://gift.example/donate?ref=x''" "''/donate''"]
        site_url_relative site_url_absolute
  by blast

subsection \<open>Initial-load reconciliation\<close>

lemma not_inherited_slash: "startsWith path ''/'' \<Longrightarrow> path \<notin> set inheritedProperties"
  by (auto simp: startsWith_def inheritedProperties_def)

lemma titleMap_dom: "dom titleMap = {''/'', ''/donate'', ''/mission'', ''/get-involved''}"
  by (auto simp: titleMap_def)

text \<open>
  C7. The title table has exactly four paths. For the path of the current location (a
  location's path begins with a slash), the expected title is the table's entry and
  \<^verbatim>\<open>GIFT Canada\<close> for a path not listed; \<^verbatim>\<open>handleInitialLoad\<close> runs the content loader on
  that path, without history update, exactly when the path is not \<^verbatim>\<open>/\<close>, contains neither
  \<^verbatim>\<open>.html\<close> nor \<^verbatim>\<open>#\<close>, and the document's title differs from the expected one; otherwise
  it does nothing.
\<close>

theorem handleInitialLoad_reconciles:
  "dom titleMap = {''/'', ''/donate'', ''/mission'', ''/get-involved''}
   \<and> (startsWith (locationPathname w) ''/'' \<longrightarrow>
        (let path = locationPathname w;
             expected = (case titleMap path of Some title \<Rightarrow> title | None \<Rightarrow> ''GIFT Canada'');
             reload = (path \<noteq> ''/'' \<and> \<not> str_includes path ''.html'' \<and> \<not> str_includes path ''#''
                        \<and> docTitle w \<noteq> expected)
         in getExpectedTitle path = Str expected
            \<and> handleInitialLoad e w = (if reload then loadContent e path False w else w)
            \<and> fetchLog (handleInitialLoad e w)
                = (if reload then fetchLog w @ [pathToHtmlFile path] else fetchLog w)
            \<and> history (handleInitialLoad e w) = history w))"
proof -
  have "getExpectedTitle (locationPathname w)
          = Str (case titleMap (locationPathname w) of Some title \<Rightarrow> title | None \<Rightarrow> ''GIFT Canada'')"
    if "startsWith (locationPathname w) ''/''"
    using not_inherited_slash [OF that] by (simp add: getExpectedTitle_def split: option.splits)
  then show ?thesis
    by (simp add: titleMap_dom handleInitialLoad_def getCurrentPath_def Let_def
          loadContent_fetchLog loadContent_history tryLoad_history_kept)
qed

theorem handleInitialLoad_reconciles_witness:
  "startsWith (locationPathname aboutWorld) ''/''
   \<and> getExpectedTitle ''/about'' = Str ''GIFT Canada''
   \<and> handleInitialLoad siteEnv aboutWorld = loadContent siteEnv ''/about'' False aboutWorld
   \<and> fetchLog (handleInitialLoad siteEnv aboutWorld) = [''about.html'']
   \<and> history (handleInitialLoad siteEnv aboutWorld) = []"
proof -
  have slash: "startsWith (locationPathname aboutWorld) ''/''"
    by (simp add: aboutWorld_fields startsWith_def)
  have unlisted: "titleMap ''/about'' = None"
    by (simp add: titleMap_def)
  have clean: "\<not> str_includes ''/about'' ''.html''" "\<not> str_includes ''/about'' ''#''"
    by (simp_all add: startsWith_def)
  from handleInitialLoad_reconciles [of aboutWorld siteEnv] slash
  have "getExpectedTitle ''/about'' = Str ''GIFT Canada''
        \<and> handleInitialLoad siteEnv aboutWorld = loadContent siteEnv ''/about'' False aboutWorld
        \<and> fetchLog (handleInitialLoad siteEnv aboutWorld) = [''about.html'']
        \<and> history (handleInitialLoad siteEnv aboutWorld) = []"
    by (simp (no_asm_use) add: Let_def aboutWorld_fields unlisted clean pathToHtmlFile_about
          del: str_includes.simps) blast
  with slash show ?thesis by blast
qed

subsection \<open>Link classification\<close>

lemma isInternalLink_iff:
  "isInternalLink e link \<longleftrightarrow>
     (\<exists>h. hrefAttr link = Some h \<and> h \<noteq> ''''
          \<and> \<not> (startsWith h ''http'' \<and> \<not> str_includes h (origin e))
          \<and> \<not> startsWith h ''#''
          \<and> \<not> startsWith h ''mailto:'' \<and> \<not> startsWith h ''tel:''
          \<and> targetAttr link \<noteq> Some ''_blank'')"
  by (auto simp: isInternalLink_def split: option.splits)

lemma isInternalLink_examples:
  "isInternalLink siteEnv \<lparr>hrefAttr = Some ''/mission'', targetAttr = None,
                            hrefProp = ''https://gift.example/mission''\<rparr>"
  "\<not> isInternalLink siteEnv \<lparr>hrefAttr = Some ''#section'', targetAttr = None,
                              hrefProp = ''https://gift.example/#section''\<rparr>"
  "\<not> isInternalLink siteEnv \<lparr>hrefAttr = Some ''/mission'', targetAttr = Some ''_blank'',
                              hrefProp = ''https://gift.example/mission''\<rparr>"
  "\<not> isInternalLink siteEnv \<lparr>hrefAttr = Some ''https://other.example/page'', targetAttr = None,
                              hrefProp = ''https://other.example/page''\<rparr>"
  "\<not> isInternalLink siteEnv \<lparr>hrefAttr = None, targetAttr = None, hrefProp = ''''\<rparr>"
  by (simp_all add: isInternalLink_def siteEnv_def startsWith_def)

text \<open>
  C2. The specification asks that an anchor to a different origin is never intercepted.
  The router rejects an \<^verbatim>\<open>http\<close> href only when the page's origin occurs nowhere in it, so
  the share link, whose origin is another site's, is classified as internal: the click
  is intercepted and the router navigates to that URL's path on its own site.
\<close>

theorem isInternalLink_foreign_origin_intercepted:
  "httpUrlOrigin (hrefProp shareLink) = Some ''https://www.facebook.com''
   \<and> origin siteEnv = ''https://gift.example''
   \<and> isInternalLink siteEnv shareLink
   \<and> fst (onClick siteEnv (Some shareLink) homeWorld)
   \<and> currentPath (snd (onClick siteEnv (Some shareLink) homeWorld)) = ''/sharer/sharer.php''"
proof -
  have foreign: "httpUrlOrigin (hrefProp shareLink) = Some ''https://www.facebook.com''"
    by (simp add: shareLink_def httpUrlOrigin_def afterScheme_def startsWith_def isPathEnd_def)
  have own: "origin siteEnv = ''https://gift.example''"
    by (simp add: siteEnv_def)
  have internal: "isInternalLink siteEnv shareLink"
    by (simp add: isInternalLink_def shareLink_def own startsWith_def)
  have path: "getPathFromUrl siteEnv (hrefProp shareLink) = ''/sharer/sharer.php''"
    by (simp add: getPathFromUrl_def siteEnv_def shareLink_def httpUrlPathname_def
          afterScheme_def startsWith_def isPathEnd_def isQueryOrFragment_def)
  have "currentPath (navigate siteEnv ''/sharer/sharer.php'' homeWorld) = ''/sharer/sharer.php''"
    by (simp add: navigate_def loadContent_currentPath)
  with foreign own internal path show ?thesis
    by (simp add: onClick_def)
qed

end
